theory Spec2Isabelle
  imports Main "HOL-Library.Sublist"
begin

section \<open>Python values and exceptions\<close>

text \<open>
  The module \<^verbatim>\<open>lib/core/replication.py\<close> is dynamically typed: the \<^verbatim>\<open>columns\<close>
  argument of a table may be \<^verbatim>\<open>None\<close> (its default), a list of names, or a list of
  (name, type) pairs. The values that reach the module are modelled by \<open>pyval\<close>;
  \<open>DataType n\<close> is an instance of the class \<^verbatim>\<open>Replication.DataType\<close> with
  \<^verbatim>\<open>self.name = n\<close>.
\<close>

datatype pyval =
    PNone
  | PInt int
  | PStr string
  | PTuple "pyval list"
  | PList "pyval list"
  | DataType string

text \<open>
  Exceptions are values. \<open>OperationalError\<close>, \<open>DatabaseError\<close>, \<open>IntegrityError\<close>
  and \<open>ProgrammingError\<close> are the classes of the \<^verbatim>\<open>sqlite3\<close> module; the three
  \<open>Sqlmap...\<close> constructors are the classes imported from \<^verbatim>\<open>lib.core.exception\<close>;
  \<open>TypeError\<close> and \<open>ValueError\<close> are raised by the interpreter itself. All of them
  are subclasses of \<^verbatim>\<open>Exception\<close>, so \<^verbatim>\<open>except Exception\<close> catches each of them.
\<close>

datatype exn =
    TypeError string
  | ValueError string
  | OperationalError string
  | DatabaseError string
  | IntegrityError string
  | ProgrammingError string
  | SqlmapConnectionException string
  | SqlmapGenericException string
  | SqlmapValueException string

text \<open>What a method hands back: \<^verbatim>\<open>None\<close>, or a cursor of the engine.\<close>

datatype 'c pyret = RetNone | RetCursor 'c

section \<open>Collaborators\<close>

text \<open>
  Everything the module imports is a parameter: the identifier sanitiser and
  \<^verbatim>\<open>getSafeExString\<close> of \<^verbatim>\<open>lib.core.common\<close> (with its optional encoding
  argument), the constant \<^verbatim>\<open>UNICODE_ENCODING\<close> of \<^verbatim>\<open>lib.core.settings\<close>,
  \<^verbatim>\<open>safechardecode\<close> of \<^verbatim>\<open>lib.utils.safe2bin\<close>, the interpreter's \<^verbatim>\<open>str\<close> for values that are neither
  strings nor \<^verbatim>\<open>DataType\<close> instances, and the engine. \<open>sqlite3_connect\<close> stands for
  the three engine calls of \<^verbatim>\<open>Replication.__init__\<close> (connect, set the isolation
  level, open the cursor); \<open>cursor_execute\<close> is \<^verbatim>\<open>cursor.execute(sql, parameters)\<close>,
  which may fail, yields a cursor, and may change the database \<open>'db\<close> either way.
\<close>

record ('db, 'c) collaborators =
  unsafeSQLIdentificatorNaming :: "pyval \<Rightarrow> pyval"
  getSafeExString :: "exn \<Rightarrow> string option \<Rightarrow> string"
  UNICODE_ENCODING :: string
  safechardecode :: "pyval list \<Rightarrow> pyval list"
  builtin_str :: "pyval \<Rightarrow> string"
  sqlite3_connect :: "string \<Rightarrow> exn + 'db"
  cursor_execute :: "string \<Rightarrow> pyval list \<Rightarrow> 'db \<Rightarrow> (exn + 'c) \<times> 'db"

section \<open>Interpreter primitives used by the module\<close>

text \<open>\<^verbatim>\<open>DataType.__str__\<close> and \<^verbatim>\<open>DataType.__repr__\<close>.\<close>

definition DataType_str :: "string \<Rightarrow> string" where
  "DataType_str n = n"

definition DataType_repr :: "string \<Rightarrow> string" where
  "DataType_repr n = ''<DataType: '' @ DataType_str n @ ''>''"

text \<open>The five class-level constants.\<close>

definition sqlite_NULL :: pyval where "sqlite_NULL = DataType ''NULL''"
definition sqlite_INTEGER :: pyval where "sqlite_INTEGER = DataType ''INTEGER''"
definition sqlite_REAL :: pyval where "sqlite_REAL = DataType ''REAL''"
definition sqlite_TEXT :: pyval where "sqlite_TEXT = DataType ''TEXT''"
definition sqlite_BLOB :: pyval where "sqlite_BLOB = DataType ''BLOB''"

text \<open>A replacement field \<^verbatim>\<open>{v}\<close> of an f-string.\<close>

definition py_str :: "('db, 'c) collaborators \<Rightarrow> pyval \<Rightarrow> string" where
  "py_str env v =
     (case v of PStr s \<Rightarrow> s | DataType n \<Rightarrow> DataType_str n | _ \<Rightarrow> builtin_str env v)"

text \<open>\<^verbatim>\<open>sep.join(parts)\<close>.\<close>

fun join :: "string \<Rightarrow> string list \<Rightarrow> string" where
  "join sep [] = []"
| "join sep [x] = x"
| "join sep (x # y # ys) = x @ sep @ join sep (y # ys)"

text \<open>
  Iterating a value: \<^verbatim>\<open>None\<close>, integers and \<^verbatim>\<open>DataType\<close> instances are not
  iterable, a string yields its characters. The texts of the interpreter's own
  messages are abbreviated.
\<close>

definition py_iter :: "pyval \<Rightarrow> exn + pyval list" where
  "py_iter v =
     (case v of
        PNone \<Rightarrow> Inl (TypeError ''object is not iterable'')
      | PInt i \<Rightarrow> Inl (TypeError ''object is not iterable'')
      | PStr s \<Rightarrow> Inr (map (\<lambda>c. PStr [c]) s)
      | PTuple xs \<Rightarrow> Inr xs
      | PList xs \<Rightarrow> Inr xs
      | DataType n \<Rightarrow> Inl (TypeError ''object is not iterable''))"

text \<open>\<^verbatim>\<open>len(v)\<close>.\<close>

definition py_len :: "pyval \<Rightarrow> exn + nat" where
  "py_len v =
     (case v of
        PNone \<Rightarrow> Inl (TypeError ''object has no len()'')
      | PInt i \<Rightarrow> Inl (TypeError ''object has no len()'')
      | PStr s \<Rightarrow> Inr (length s)
      | PTuple xs \<Rightarrow> Inr (length xs)
      | PList xs \<Rightarrow> Inr (length xs)
      | DataType n \<Rightarrow> Inl (TypeError ''object has no len()''))"

text \<open>The target \<^verbatim>\<open>colname, coltype\<close> of the \<^verbatim>\<open>for\<close> clause: unpacking into two names.\<close>

definition unpack2 :: "pyval \<Rightarrow> exn + (pyval \<times> pyval)" where
  "unpack2 v =
     (case py_iter v of
        Inl e \<Rightarrow> Inl (TypeError ''cannot unpack non-iterable object'')
      | Inr xs \<Rightarrow>
          (case xs of
             [a, b] \<Rightarrow> Inr (a, b)
           | [] \<Rightarrow> Inl (ValueError ''not enough values to unpack'')
           | [a] \<Rightarrow> Inl (ValueError ''not enough values to unpack'')
           | _ \<Rightarrow> Inl (ValueError ''too many values to unpack'')))"

text \<open>A generator expression consumed from left to right; the first failure ends it.\<close>

fun generate :: "('a \<Rightarrow> exn + 'b) \<Rightarrow> 'a list \<Rightarrow> exn + 'b list" where
  "generate f [] = Inr []"
| "generate f (x # xs) =
     (case f x of
        Inl e \<Rightarrow> Inl e
      | Inr y \<Rightarrow> (case generate f xs of Inl e \<Rightarrow> Inl e | Inr ys \<Rightarrow> Inr (y # ys)))"

section \<open>The objects\<close>

text \<open>
  A \<^verbatim>\<open>Replication\<close> object owns the connection; \<open>connection\<close> is the database
  behind it. \<open>statements\<close> is a ghost field: the calls of \<^verbatim>\<open>cursor.execute\<close> made so
  far, each with its SQL text and its bound parameters, in order. A \<^verbatim>\<open>Table\<close>
  holds its sanitised name and its columns; its \<^verbatim>\<open>parent\<close> is the \<^verbatim>\<open>Replication\<close>
  state threaded through every method.
\<close>

record 'db Replication =
  dbpath :: string
  connection :: 'db
  statements :: "(string \<times> pyval list) list"

record Table =
  name :: pyval
  columns :: pyval

section \<open>SQL texts and messages\<close>

definition drop_sql :: "string \<Rightarrow> string" where
  \<open>drop_sql nm = ''DROP TABLE IF EXISTS "'' @ nm @ ''"''\<close>

definition create_sql :: "string \<Rightarrow> string \<Rightarrow> string" where
  \<open>create_sql nm cols = ''CREATE TABLE "'' @ nm @ ''" ('' @ cols @ '')''\<close>

definition insert_sql :: "string \<Rightarrow> nat \<Rightarrow> string" where
  \<open>insert_sql nm k =
     ''INSERT INTO "'' @ nm @ ''" VALUES ('' @ join '','' (replicate k ''?'') @ '')''\<close>

text \<open>\<^verbatim>\<open>if condition:\<close> is false for \<^verbatim>\<open>None\<close> and for the empty string.\<close>

definition select_sql :: "string \<Rightarrow> string option \<Rightarrow> string" where
  "select_sql nm condition =
     (let s = ''SELECT * FROM '' @ nm in
      case condition of
        None \<Rightarrow> s
      | Some c \<Rightarrow> if c \<noteq> [] then s @ ''WHERE '' @ c else s)"

definition connect_errMsg :: "('db, 'c) collaborators \<Rightarrow> string \<Rightarrow> exn \<Rightarrow> string" where
  "connect_errMsg env path ex =
     ''error occurred while opening a replication '' @
     ''file '' @ [CHR 0x27] @ path @ [CHR 0x27] @ '' ('' @ [CHR 0x27] @
     getSafeExString env ex None @ [CHR 0x27] @ '')''"

definition init_errMsg :: "('db, 'c) collaborators \<Rightarrow> string \<Rightarrow> exn \<Rightarrow> string" where
  "init_errMsg env path ex =
     ''problem occurred ('' @ [CHR 0x27] @
     getSafeExString env ex (Some (UNICODE_ENCODING env)) @ [CHR 0x27] @
     '') while initializing the sqlite database '' @
     ''located at '' @ [CHR 0x27] @ path @ [CHR 0x27]"

definition execute_errMsg :: "('db, 'c) collaborators \<Rightarrow> string \<Rightarrow> exn \<Rightarrow> string" where
  "execute_errMsg env path ex =
     ''problem occurred ('' @ [CHR 0x27] @
     getSafeExString env ex (Some (UNICODE_ENCODING env)) @ [CHR 0x27] @
     '') while accessing sqlite database '' @
     ''located at '' @ [CHR 0x27] @ path @ [CHR 0x27] @ ''. Please make sure that '' @
     ''it'' @ [CHR 0x27] @ ''s not used by some other program''"

definition insert_errMsg :: string where
  "insert_errMsg = ''wrong number of columns used in replicating insert''"

section \<open>Replication and Table\<close>

text \<open>\<^verbatim>\<open>Replication.__init__\<close>: only \<^verbatim>\<open>sqlite3.OperationalError\<close> is caught.\<close>

definition Replication_init ::
  "('db, 'c) collaborators \<Rightarrow> string \<Rightarrow> exn + 'db Replication" where
  "Replication_init env path =
     (case sqlite3_connect env path of
        Inr d \<Rightarrow> Inr \<lparr>dbpath = path, connection = d, statements = []\<rparr>
      | Inl ex \<Rightarrow>
          (case ex of
             OperationalError m \<Rightarrow> Inl (SqlmapConnectionException (connect_errMsg env path ex))
           | _ \<Rightarrow> Inl ex))"

text \<open>The table name as an f-string interpolates it.\<close>

definition table_name :: "('db, 'c) collaborators \<Rightarrow> Table \<Rightarrow> string" where
  "table_name env self = py_str env (name self)"

text \<open>
  \<^verbatim>\<open>Table.execute\<close>: one call of the cursor with \<^verbatim>\<open>parameters or []\<close>; an
  \<^verbatim>\<open>OperationalError\<close> is re-raised as a \<^verbatim>\<open>SqlmapGenericException\<close>, any other
  exception passes. The method has no \<^verbatim>\<open>return\<close> statement: the cursor that the
  engine yields is dropped and the caller gets \<^verbatim>\<open>None\<close>.
\<close>

definition execute ::
  "('db, 'c) collaborators \<Rightarrow> Table \<Rightarrow> string \<Rightarrow> pyval list option \<Rightarrow> 'db Replication
     \<Rightarrow> (exn + 'c pyret) \<times> 'db Replication" where
  "execute env self sql parameters R =
     (let ps = (case parameters of None \<Rightarrow> [] | Some p \<Rightarrow> if p = [] then [] else p);
          (r, d) = cursor_execute env sql ps (connection R);
          R' = R\<lparr>connection := d, statements := statements R @ [(sql, ps)]\<rparr>
      in case r of
           Inr cur \<Rightarrow> (Inr RetNone, R')
         | Inl ex \<Rightarrow>
             (case ex of
                OperationalError m \<Rightarrow>
                  (Inl (SqlmapGenericException (execute_errMsg env (dbpath R') ex)), R')
              | _ \<Rightarrow> (Inl ex, R')))"

text \<open>The two generator expressions of \<^verbatim>\<open>Table.__init__\<close> and the joined column list.\<close>

definition typed_column :: "('db, 'c) collaborators \<Rightarrow> pyval \<Rightarrow> exn + string" where
  \<open>typed_column env el =
     (case unpack2 el of
        Inl e \<Rightarrow> Inl e
      | Inr (colname, coltype) \<Rightarrow>
          Inr (''"'' @ py_str env (unsafeSQLIdentificatorNaming env colname) @ ''" '' @
               py_str env coltype))\<close>

definition typeless_column :: "('db, 'c) collaborators \<Rightarrow> pyval \<Rightarrow> exn + string" where
  \<open>typeless_column env colname =
     Inr (''"'' @ py_str env (unsafeSQLIdentificatorNaming env colname) @ ''"'')\<close>

definition column_list :: "('db, 'c) collaborators \<Rightarrow> bool \<Rightarrow> pyval \<Rightarrow> exn + string" where
  "column_list env typeless cols =
     (case py_iter cols of
        Inl e \<Rightarrow> Inl e
      | Inr els \<Rightarrow>
          (case generate (if \<not> typeless then typed_column env else typeless_column env) els of
             Inl e \<Rightarrow> Inl e
           | Inr parts \<Rightarrow> Inr (join '','' parts)))"

text \<open>
  \<^verbatim>\<open>Table.__init__\<close>. With \<^verbatim>\<open>create\<close> the body runs under \<^verbatim>\<open>except Exception\<close>:
  whatever is raised by the DROP, by building the column list or by the CREATE
  becomes a \<^verbatim>\<open>SqlmapGenericException\<close>.
\<close>

definition Table_init ::
  "('db, 'c) collaborators \<Rightarrow> 'db Replication \<Rightarrow> pyval \<Rightarrow> pyval \<Rightarrow> bool \<Rightarrow> bool
     \<Rightarrow> (exn + Table) \<times> 'db Replication" where
  "Table_init env parent nm cols create typeless =
     (let self = \<lparr>name = unsafeSQLIdentificatorNaming env nm, columns = cols\<rparr> in
      if create then
        (case execute env self (drop_sql (table_name env self)) None parent of
           (Inl ex, R1) \<Rightarrow>
             (Inl (SqlmapGenericException (init_errMsg env (dbpath R1) ex)), R1)
         | (Inr u, R1) \<Rightarrow>
             (case column_list env typeless (columns self) of
                Inl ex \<Rightarrow>
                  (Inl (SqlmapGenericException (init_errMsg env (dbpath R1) ex)), R1)
              | Inr cl \<Rightarrow>
                  (case execute env self (create_sql (table_name env self) cl) None R1 of
                     (Inl ex, R2) \<Rightarrow>
                       (Inl (SqlmapGenericException (init_errMsg env (dbpath R2) ex)), R2)
                   | (Inr u', R2) \<Rightarrow> (Inr self, R2))))
      else (Inr self, parent))"

text \<open>\<^verbatim>\<open>Table.insert\<close>: \<^verbatim>\<open>len(self.columns)\<close> may itself fail, outside any handler.\<close>

definition insert ::
  "('db, 'c) collaborators \<Rightarrow> Table \<Rightarrow> pyval list \<Rightarrow> 'db Replication
     \<Rightarrow> (exn + 'c pyret) \<times> 'db Replication" where
  "insert env self vals R =
     (case py_len (columns self) of
        Inl e \<Rightarrow> (Inl e, R)
      | Inr n \<Rightarrow>
          if length vals = n then
            (case execute env self (insert_sql (table_name env self) (length vals))
                    (Some (safechardecode env vals)) R of
               (Inl ex, R') \<Rightarrow> (Inl ex, R')
             | (Inr u, R') \<Rightarrow> (Inr RetNone, R'))
          else (Inl (SqlmapValueException insert_errMsg), R))"

definition beginTransaction ::
  "('db, 'c) collaborators \<Rightarrow> Table \<Rightarrow> 'db Replication \<Rightarrow> (exn + 'c pyret) \<times> 'db Replication" where
  "beginTransaction env self R =
     (case execute env self ''BEGIN TRANSACTION'' None R of
        (Inl ex, R') \<Rightarrow> (Inl ex, R')
      | (Inr u, R') \<Rightarrow> (Inr RetNone, R'))"

definition endTransaction ::
  "('db, 'c) collaborators \<Rightarrow> Table \<Rightarrow> 'db Replication \<Rightarrow> (exn + 'c pyret) \<times> 'db Replication" where
  "endTransaction env self R =
     (case execute env self ''END TRANSACTION'' None R of
        (Inl ex, R') \<Rightarrow> (Inl ex, R')
      | (Inr u, R') \<Rightarrow> (Inr RetNone, R'))"

text \<open>\<^verbatim>\<open>Table.select\<close> returns what \<^verbatim>\<open>execute\<close> returns.\<close>

definition select ::
  "('db, 'c) collaborators \<Rightarrow> Table \<Rightarrow> string option \<Rightarrow> 'db Replication
     \<Rightarrow> (exn + 'c pyret) \<times> 'db Replication" where
  "select env self condition R =
     execute env self (select_sql (table_name env self) condition) None R"

definition createTable ::
  "('db, 'c) collaborators \<Rightarrow> 'db Replication \<Rightarrow> pyval \<Rightarrow> pyval \<Rightarrow> bool
     \<Rightarrow> (exn + Table) \<times> 'db Replication" where
  "createTable env self tblname cols typeless = Table_init env self tblname cols True typeless"

section \<open>A contract for the engine's DROP and CREATE\<close>

text \<open>
  What the statements do to the database is the engine's business. For the claim about
  creating a table twice the engine is described by an observation \<open>obs\<close> of a database
  (for a table name: the column list it was created with and its rows) and by two
  contracts on the statement texts the module issues: DROP succeeds and leaves no table
  of that name; CREATE on a database without the table succeeds and leaves it with the
  given column list and no rows.
\<close>

definition drops_table ::
  "('db, 'c) collaborators \<Rightarrow> ('db \<Rightarrow> string \<Rightarrow> (string \<times> pyval list list) option)
     \<Rightarrow> string \<Rightarrow> bool" where
  "drops_table env obs nm =
     (\<forall>d. case cursor_execute env (drop_sql nm) [] d of
            (Inl e, d') \<Rightarrow> False
          | (Inr c, d') \<Rightarrow> obs d' nm = None)"

definition creates_table ::
  "('db, 'c) collaborators \<Rightarrow> ('db \<Rightarrow> string \<Rightarrow> (string \<times> pyval list list) option)
     \<Rightarrow> string \<Rightarrow> string \<Rightarrow> bool" where
  "creates_table env obs nm cl =
     (\<forall>d. obs d nm = None \<longrightarrow>
        (case cursor_execute env (create_sql nm cl) [] d of
           (Inl e, d') \<Rightarrow> False
         | (Inr c, d') \<Rightarrow> obs d' nm = Some (cl, [])))"

section \<open>A small engine for running the module on concrete inputs\<close>

text \<open>
  A database is a map from table names to the column list and the rows of the table;
  a cursor is the list of rows it would fetch. The engine understands the statement
  shapes the module issues and answers everything else, a CREATE with an empty column
  list, a CREATE of an existing table and any access to a missing table with an
  \<open>OperationalError\<close>. A path ending in a slash is a directory and cannot be opened;
  a path holding a NUL byte never reaches the engine: \<^verbatim>\<open>sqlite3.connect\<close> refuses it
  with a \<open>ValueError\<close>.
\<close>

type_synonym mini_db = "string \<Rightarrow> (string \<times> pyval list list) option"

type_synonym mini_cursor = "pyval list list"

definition mini_connect :: "string \<Rightarrow> exn + mini_db" where
  "mini_connect path =
     (if CHR 0x00 \<in> set path then Inl (ValueError ''embedded null byte'')
      else if path \<noteq> [] \<and> last path = CHR ''/''
      then Inl (OperationalError ''unable to open database file'')
      else Inr (\<lambda>t. None))"

definition mini_execute ::
  "string \<Rightarrow> pyval list \<Rightarrow> mini_db \<Rightarrow> (exn + mini_cursor) \<times> mini_db" where
  \<open>mini_execute sql ps d =
     (if prefix ''DROP TABLE IF EXISTS "'' sql then
        (Inr [], d(butlast (drop 22 sql) := None))
      else if prefix ''CREATE TABLE "'' sql then
        (let nm = takeWhile (\<lambda>x. x \<noteq> CHR 0x22) (drop 14 sql);
             cl = butlast (drop (length nm + 17) sql)
         in if cl = [] then (Inl (OperationalError ''syntax error''), d)
            else if d nm \<noteq> None then (Inl (OperationalError ''table already exists''), d)
            else (Inr [], d(nm := Some (cl, []))))
      else if prefix ''INSERT INTO "'' sql then
        (let nm = takeWhile (\<lambda>x. x \<noteq> CHR 0x22) (drop 13 sql)
         in case d nm of
              None \<Rightarrow> (Inl (OperationalError ''no such table''), d)
            | Some (cl, rows) \<Rightarrow> (Inr [], d(nm := Some (cl, rows @ [ps]))))
      else if prefix ''SELECT * FROM '' sql then
        (case d (drop 14 sql) of
           None \<Rightarrow> (Inl (OperationalError ''no such table''), d)
         | Some (cl, rows) \<Rightarrow> (Inr rows, d))
      else if sql = ''BEGIN TRANSACTION'' \<or> sql = ''END TRANSACTION'' then (Inr [], d)
      else (Inl (OperationalError ''syntax error''), d))\<close>

fun exn_text :: "exn \<Rightarrow> string" where
  "exn_text (TypeError m) = m"
| "exn_text (ValueError m) = m"
| "exn_text (OperationalError m) = m"
| "exn_text (DatabaseError m) = m"
| "exn_text (IntegrityError m) = m"
| "exn_text (ProgrammingError m) = m"
| "exn_text (SqlmapConnectionException m) = m"
| "exn_text (SqlmapGenericException m) = m"
| "exn_text (SqlmapValueException m) = m"

definition mini_sanitize :: "pyval \<Rightarrow> pyval" where
  "mini_sanitize v = (case v of PStr s \<Rightarrow> PStr (filter (\<lambda>x. x \<noteq> CHR 0x22) s) | _ \<Rightarrow> v)"

definition mini_str :: "pyval \<Rightarrow> string" where
  "mini_str v = (case v of PNone \<Rightarrow> ''None'' | _ \<Rightarrow> ''<object>'')"

definition mini_env :: "(mini_db, mini_cursor) collaborators" where
  "mini_env =
     \<lparr>unsafeSQLIdentificatorNaming = mini_sanitize,
      getSafeExString = (\<lambda>ex encoding. exn_text ex),
      UNICODE_ENCODING = ''utf8'',
      safechardecode = (\<lambda>vs. vs),
      builtin_str = mini_str,
      sqlite3_connect = mini_connect,
      cursor_execute = mini_execute\<rparr>"

text \<open>
  The same collaborators over a file that is not a database: the connection opens, and
  every statement fails with the engine's \<open>DatabaseError\<close>.
\<close>

definition notadb_env :: "(mini_db, mini_cursor) collaborators" where
  "notadb_env =
     mini_env\<lparr>cursor_execute :=
       (\<lambda>sql ps d. (Inl (DatabaseError ''file is not a database''), d))\<rparr>"

text \<open>The table \<^verbatim>\<open>users\<close>, a state in which it holds one row, and an empty state.\<close>

definition users :: Table where
  "users = \<lparr>name = PStr ''users'', columns = PList [PTuple [PStr ''id'', sqlite_INTEGER]]\<rparr>"

definition one_row :: "mini_db Replication" where
  \<open>one_row =
     \<lparr>dbpath = ''/tmp/out.sqlite3'',
      connection = (\<lambda>t. if t = ''users'' then Some (''"id" INTEGER'', [[PInt 1]]) else None),
      statements = []\<rparr>\<close>

definition fresh :: "mini_db Replication" where
  "fresh = \<lparr>dbpath = ''/tmp/out.sqlite3'', connection = (\<lambda>t. None), statements = []\<rparr>"

section \<open>Facts about the primitives\<close>

lemma join_replicate_Suc:
  "join sep (replicate (Suc (Suc k)) x) = x @ sep @ join sep (replicate (Suc k) x)"
  by simp

lemma count_placeholders_Suc:
  "count_list (join '','' (replicate (Suc k) ''?'')) (CHR ''?'') = Suc k"
proof (induction k)
  case 0
  show ?case by simp
next
  case (Suc k)
  have "count_list (join '','' (replicate (Suc (Suc k)) ''?'')) (CHR ''?'')
        = count_list (''?'' @ '','' @ join '','' (replicate (Suc k) ''?'')) (CHR ''?'')"
    by (simp only: join_replicate_Suc)
  also have "\<dots> = Suc (count_list (join '','' (replicate (Suc k) ''?'')) (CHR ''?''))"
    by simp
  finally show ?case using Suc.IH by simp
qed

lemma count_placeholders:
  "count_list (join '','' (replicate k ''?'')) (CHR ''?'') = k"
  by (cases k) (simp_all only: count_placeholders_Suc, simp)

lemma set_placeholders_Suc:
  "set (join '','' (replicate (Suc k) ''?'')) \<subseteq> {CHR ''?'', CHR '',''}"
proof (induction k)
  case 0
  show ?case by simp
next
  case (Suc k)
  have "set (join '','' (replicate (Suc (Suc k)) ''?''))
        = set (''?'' @ '','' @ join '','' (replicate (Suc k) ''?''))"
    by (simp only: join_replicate_Suc)
  then show ?case using Suc.IH by auto
qed

lemma set_placeholders:
  "set (join '','' (replicate k ''?'')) \<subseteq> {CHR ''?'', CHR '',''}"
  by (cases k) (simp, simp only: set_placeholders_Suc)


lemma generate_fails:
  assumes "x \<in> set xs" and "f x = Inl e"
  shows "\<exists>e'. generate f xs = Inl e'"
  using assms by (induction xs) (auto split: sum.splits)





lemma column_list_None:
  "column_list env typeless PNone = Inl (TypeError ''object is not iterable'')"
  by (simp add: column_list_def py_iter_def)

lemma column_list_not_pair:
  assumes "py_iter cols = Inr els" and "el \<in> set els" and "unpack2 el = Inl e"
  shows "\<exists>e'. column_list env False cols = Inl e'"
proof -
  have "typed_column env el = Inl e" using assms(3) by (simp add: typed_column_def)
  then obtain e' where "generate (typed_column env) els = Inl e'"
    using generate_fails[OF assms(2)] by blast
  then show ?thesis using assms(1) by (simp add: column_list_def)
qed

section \<open>Facts about execute\<close>

lemma execute_statements:
  "statements (snd (execute env self sql ps R)) =
     statements R @ [(sql, case ps of None \<Rightarrow> [] | Some p \<Rightarrow> p)]"
  by (auto simp: execute_def Let_def split: prod.splits sum.splits exn.splits option.splits)

lemma execute_dbpath: "dbpath (snd (execute env self sql ps R)) = dbpath R"
  by (auto simp: execute_def Let_def split: prod.splits sum.splits exn.splits option.splits)

lemma execute_raising_dbpath:
  "execute env self sql ps R = (r, R') \<Longrightarrow> dbpath R' = dbpath R"
  using execute_dbpath[of env self sql ps R] by simp

lemma execute_returns_None:
  "fst (execute env self sql ps R) = Inr r \<Longrightarrow> r = RetNone"
  by (auto simp: execute_def Let_def split: prod.splits sum.splits exn.splits option.splits)

lemma execute_connection:
  "connection (snd (execute env self sql ps R)) =
     snd (cursor_execute env sql (case ps of None \<Rightarrow> [] | Some p \<Rightarrow> p) (connection R))"
  by (auto simp: execute_def Let_def split: prod.splits sum.splits exn.splits option.splits)

lemma execute_raises:
  "isl (fst (execute env self sql ps R)) =
     isl (fst (cursor_execute env sql (case ps of None \<Rightarrow> [] | Some p \<Rightarrow> p) (connection R)))"
  by (auto simp: execute_def Let_def split: prod.splits sum.splits exn.splits option.splits)

lemma execute_raises_iff:
  "isl (fst (execute env self sql None R)) = isl (fst (cursor_execute env sql [] (connection R)))"
  by (auto simp: execute_def Let_def split: prod.splits sum.splits exn.splits)

section \<open>Inserting rows\<close>

text \<open>
  Claim C1. When the number of values differs from the number of declared columns,
  \<^verbatim>\<open>insert\<close> raises \<^verbatim>\<open>SqlmapValueException\<close>, whose message begins with
  ``wrong number of columns'', and nothing is executed: the whole \<^verbatim>\<open>Replication\<close>
  state, the database behind the connection and the list of issued statements, is
  the one before the call.
\<close>

theorem insert_wrong_arity:
  assumes "py_len (columns self) = Inr n" and "length vals \<noteq> n"
  shows "insert env self vals R =
           (Inl (SqlmapValueException ''wrong number of columns used in replicating insert''), R)
       \<and> prefix ''wrong number of columns'' ''wrong number of columns used in replicating insert''
       \<and> statements (snd (insert env self vals R)) = statements R
       \<and> connection (snd (insert env self vals R)) = connection R"
  using assms by (simp add: insert_def insert_errMsg_def)

theorem insert_wrong_arity_witness:
  "py_len (columns users) = Inr 1 \<and> length [PInt 2, PInt 3] \<noteq> (1::nat)
   \<and> insert mini_env users [PInt 2, PInt 3] one_row =
       (Inl (SqlmapValueException ''wrong number of columns used in replicating insert''), one_row)
   \<and> statements (snd (insert mini_env users [PInt 2, PInt 3] one_row)) = statements one_row
   \<and> connection (snd (insert mini_env users [PInt 2, PInt 3] one_row)) = connection one_row"
proof -
  have h1: "py_len (columns users) = Inr 1" by (simp add: users_def py_len_def)
  have h2: "length [PInt 2, PInt 3] \<noteq> (1::nat)" by simp
  show ?thesis
    using h1 h2 insert_wrong_arity [OF h1 h2, of mini_env one_row] by simp
qed

text \<open>
  Claim C2. When the number of values equals the number of declared columns,
  \<^verbatim>\<open>insert\<close> calls the engine exactly once: the database after the call is what
  \<^verbatim>\<open>cursor.execute\<close> leaves when it is given the INSERT text and the parameters
  \<^verbatim>\<open>safechardecode(values)\<close> on the database before the call, the call raises
  exactly when the engine raises, and this one call is what is added to the issued
  statements. The text is the INSERT for the quoted table name with a list of
  placeholders that holds one question mark per value and otherwise only commas, so
  it depends on the number of values and not on the values.
\<close>

theorem insert_parameterized:
  assumes "py_len (columns self) = Inr (length vals)"
  shows \<open>connection (snd (insert env self vals R)) =
           snd (cursor_execute env
                  (''INSERT INTO "'' @ table_name env self @ ''" VALUES ('' @
                   join '','' (replicate (length vals) ''?'') @ '')'')
                  (safechardecode env vals) (connection R))
       \<and> isl (fst (insert env self vals R)) =
           isl (fst (cursor_execute env
                  (''INSERT INTO "'' @ table_name env self @ ''" VALUES ('' @
                   join '','' (replicate (length vals) ''?'') @ '')'')
                  (safechardecode env vals) (connection R)))
       \<and> statements (snd (insert env self vals R)) =
           statements R @
             [(''INSERT INTO "'' @ table_name env self @ ''" VALUES ('' @
               join '','' (replicate (length vals) ''?'') @ '')'',
               safechardecode env vals)]
       \<and> dbpath (snd (insert env self vals R)) = dbpath R
       \<and> count_list (join '','' (replicate (length vals) ''?'')) (CHR ''?'') = length vals
       \<and> set (join '','' (replicate (length vals) ''?'')) \<subseteq> {CHR ''?'', CHR '',''}\<close>
proof -
  let ?sql = "insert_sql (table_name env self) (length vals)"
  let ?ps = "Some (safechardecode env vals)"
  obtain r R' where e: "execute env self ?sql ?ps R = (r, R')"
    by (cases "execute env self ?sql ?ps R")
  have i: "snd (insert env self vals R) = R'" "isl (fst (insert env self vals R)) = isl r"
    using assms e by (auto simp: insert_def split: sum.splits)
  have c: "connection R' = snd (cursor_execute env ?sql (safechardecode env vals) (connection R))"
    using execute_connection[of env self ?sql ?ps R] e by simp
  have x: "isl r = isl (fst (cursor_execute env ?sql (safechardecode env vals) (connection R)))"
    using execute_raises[of env self ?sql ?ps R] e by simp
  have t: "statements R' = statements R @ [(?sql, safechardecode env vals)]"
    using execute_statements[of env self ?sql ?ps R] e by simp
  have d: "dbpath R' = dbpath R"
    using execute_dbpath[of env self ?sql ?ps R] e by simp
  show ?thesis
    using i c x t d count_placeholders[of "length vals"] set_placeholders[of "length vals"]
    by (simp add: insert_sql_def)
qed

theorem insert_parameterized_witness:
  \<open>py_len (columns users) = Inr (length [PStr ''x'); DROP TABLE users; --''])
   \<and> connection (snd (insert mini_env users [PStr ''x'); DROP TABLE users; --''] one_row))
         ''users'' =
       Some (''"id" INTEGER'', [[PInt 1], [PStr ''x'); DROP TABLE users; --'']])
   \<and> \<not> isl (fst (insert mini_env users [PStr ''x'); DROP TABLE users; --''] one_row))
   \<and> statements (snd (insert mini_env users [PStr ''x'); DROP TABLE users; --''] one_row)) =
       [(''INSERT INTO "users" VALUES (?)'', [PStr ''x'); DROP TABLE users; --''])]\<close>
proof -
  have h: "py_len (columns users) = Inr (length [PStr ''x'); DROP TABLE users; --''])"
    by (simp add: users_def py_len_def)
  show ?thesis
    using h insert_parameterized [OF h, of mini_env one_row]
    by (simp add: table_name_def py_str_def users_def one_row_def mini_env_def
          mini_execute_def Let_def)
qed

section \<open>Selecting rows\<close>

text \<open>
  Claim C3. With a non-empty condition \<open>c\<close>, \<^verbatim>\<open>select\<close> executes exactly the text
  \<^verbatim>\<open>SELECT * FROM \<close> followed by the table name, the word \<^verbatim>\<open>WHERE\<close> with no space
  before it, a space and \<open>c\<close>; with no condition it executes \<^verbatim>\<open>SELECT * FROM \<close>
  followed by the table name. Executing means: the database after the call is what
  \<^verbatim>\<open>cursor.execute\<close> leaves when it is given this text and no parameters on the
  database before the call, the call raises exactly when the engine raises, and this
  one call is what is added to the issued statements.
\<close>

theorem select_sql_text:
  assumes "c \<noteq> []"
  shows "connection (snd (select env self (Some c) R)) =
           snd (cursor_execute env (''SELECT * FROM '' @ table_name env self @ ''WHERE '' @ c) []
                  (connection R))
       \<and> isl (fst (select env self (Some c) R)) =
           isl (fst (cursor_execute env (''SELECT * FROM '' @ table_name env self @ ''WHERE '' @ c) []
                       (connection R)))
       \<and> statements (snd (select env self (Some c) R)) =
           statements R @ [(''SELECT * FROM '' @ table_name env self @ ''WHERE '' @ c, [])]
       \<and> connection (snd (select env self None R)) =
           snd (cursor_execute env (''SELECT * FROM '' @ table_name env self) [] (connection R))
       \<and> isl (fst (select env self None R)) =
           isl (fst (cursor_execute env (''SELECT * FROM '' @ table_name env self) []
                       (connection R)))
       \<and> statements (snd (select env self None R)) =
           statements R @ [(''SELECT * FROM '' @ table_name env self, [])]"
  using assms
  by (simp add: select_def execute_statements execute_connection execute_raises select_sql_def)

theorem select_sql_text_witness:
  \<open>''id=1'' \<noteq> []
   \<and> cursor_execute mini_env ''SELECT * FROM usersWHERE id=1'' [] (connection one_row) =
       (Inl (OperationalError ''no such table''), connection one_row)
   \<and> connection (snd (select mini_env users (Some ''id=1'') one_row)) = connection one_row
   \<and> isl (fst (select mini_env users (Some ''id=1'') one_row))
   \<and> statements (snd (select mini_env users (Some ''id=1'') one_row)) =
       [(''SELECT * FROM usersWHERE id=1'', [])]
   \<and> cursor_execute mini_env ''SELECT * FROM users'' [] (connection one_row) =
       (Inr [[PInt 1]], connection one_row)
   \<and> connection (snd (select mini_env users None one_row)) = connection one_row
   \<and> \<not> isl (fst (select mini_env users None one_row))
   \<and> statements (snd (select mini_env users None one_row)) = [(''SELECT * FROM users'', [])]\<close>
proof -
  have h: "''id=1'' \<noteq> []" by simp
  have n: "table_name mini_env users = ''users''"
    by (simp add: table_name_def py_str_def users_def)
  have x1: "cursor_execute mini_env ''SELECT * FROM usersWHERE id=1'' [] (connection one_row) =
              (Inl (OperationalError ''no such table''), connection one_row)"
    by (simp add: mini_env_def mini_execute_def one_row_def)
  have x2: "cursor_execute mini_env ''SELECT * FROM users'' [] (connection one_row) =
              (Inr [[PInt 1]], connection one_row)"
    by (simp add: mini_env_def mini_execute_def one_row_def)
  have s: "statements one_row = []" by (simp add: one_row_def)
  show ?thesis
    using select_sql_text [OF h, of mini_env users one_row] x1 x2
    by (simp add: n s)
qed

text \<open>
  Claim C4. The claim is that \<^verbatim>\<open>select\<close> returns the cursor-level result of the
  engine. On the table \<^verbatim>\<open>users\<close> holding the row \<^verbatim>\<open>(1)\<close> the engine yields a cursor
  over that row for the statement \<^verbatim>\<open>select\<close> issues, and \<^verbatim>\<open>select\<close> returns
  \<^verbatim>\<open>None\<close>: \<^verbatim>\<open>execute\<close>, whose value \<^verbatim>\<open>select\<close> returns, has no \<^verbatim>\<open>return\<close>.
\<close>

theorem select_drops_cursor:
  \<open>cursor_execute mini_env ''SELECT * FROM users'' [] (connection one_row)
      = (Inr [[PInt 1]], connection one_row)
   \<and> statements (snd (select mini_env users None one_row)) = [(''SELECT * FROM users'', [])]
   \<and> fst (select mini_env users None one_row) = Inr RetNone
   \<and> fst (select mini_env users None one_row) \<noteq> Inr (RetCursor [[PInt 1]])\<close>
  by (simp add: select_def execute_def select_sql_def table_name_def py_str_def users_def
        one_row_def mini_env_def mini_execute_def Let_def)

section \<open>Error translation\<close>

text \<open>
  Claim C5, as stated: every exception of the engine raised under \<^verbatim>\<open>execute\<close> is
  re-raised as a \<^verbatim>\<open>SqlmapGenericException\<close>. On a file that is not a database the
  engine raises \<open>DatabaseError\<close>, and \<^verbatim>\<open>execute\<close> lets it through as it is.
\<close>

theorem execute_unwrapped_counterexample:
  "cursor_execute notadb_env ''SELECT 1'' [] (connection fresh)
      = (Inl (DatabaseError ''file is not a database''), connection fresh)
   \<and> fst (execute notadb_env users ''SELECT 1'' None fresh)
      = Inl (DatabaseError ''file is not a database'')
   \<and> fst (execute notadb_env users ''SELECT 1'' None fresh)
      \<noteq> Inl (SqlmapGenericException
              (execute_errMsg notadb_env (dbpath fresh) (DatabaseError ''file is not a database'')))"
  by (simp add: execute_def notadb_env_def mini_env_def fresh_def Let_def)

text \<open>
  Claim C5, amended. When the engine raises while \<^verbatim>\<open>execute\<close> runs a statement, an
  \<open>OperationalError\<close> is re-raised as a \<^verbatim>\<open>SqlmapGenericException\<close> whose message
  holds the engine's text and the path of the database file and asks to make sure
  that the file is not used by some other program; an exception of any other class
  is raised unchanged. In both cases the call raises, the engine was called exactly
  once, and the database is as the engine left it.
\<close>

theorem execute_wraps_operational:
  assumes "cursor_execute env sql (case ps of None \<Rightarrow> [] | Some p \<Rightarrow> p) (connection R)
             = (Inl ex, d)"
  shows "(case ex of
            OperationalError m \<Rightarrow>
              fst (execute env self sql ps R) =
                Inl (SqlmapGenericException
                  (''problem occurred ('' @ [CHR 0x27] @
                   getSafeExString env ex (Some (UNICODE_ENCODING env)) @ [CHR 0x27] @
                   '') while accessing sqlite database located at '' @ [CHR 0x27] @ dbpath R @
                   [CHR 0x27] @ ''. Please make sure that it'' @ [CHR 0x27] @
                   ''s not used by some other program''))
          | _ \<Rightarrow> fst (execute env self sql ps R) = Inl ex)
       \<and> statements (snd (execute env self sql ps R)) =
           statements R @ [(sql, case ps of None \<Rightarrow> [] | Some p \<Rightarrow> p)]
       \<and> connection (snd (execute env self sql ps R)) = d"
  using assms
  by (auto simp: execute_def Let_def execute_errMsg_def
           split: prod.splits sum.splits exn.splits option.splits)

theorem execute_wraps_operational_witness:
  "cursor_execute mini_env ''SELECT * FROM nosuch'' (case None of None \<Rightarrow> [] | Some p \<Rightarrow> p)
       (connection fresh)
     = (Inl (OperationalError ''no such table''), connection fresh)
   \<and> fst (execute mini_env users ''SELECT * FROM nosuch'' None fresh) =
       Inl (SqlmapGenericException
         (''problem occurred ('' @ [CHR 0x27] @ ''no such table'' @ [CHR 0x27] @
          '') while accessing sqlite database located at '' @ [CHR 0x27] @ ''/tmp/out.sqlite3'' @
          [CHR 0x27] @ ''. Please make sure that it'' @ [CHR 0x27] @
          ''s not used by some other program''))
   \<and> statements (snd (execute mini_env users ''SELECT * FROM nosuch'' None fresh)) =
       [(''SELECT * FROM nosuch'', [])]"
proof -
  have h: "cursor_execute mini_env ''SELECT * FROM nosuch''
             (case None of None \<Rightarrow> [] | Some p \<Rightarrow> p) (connection fresh)
           = (Inl (OperationalError ''no such table''), connection fresh)"
    by (simp add: mini_env_def mini_execute_def fresh_def)
  show ?thesis
    using h execute_wraps_operational [OF h, of users]
    by (simp add: mini_env_def fresh_def)
qed

text \<open>
  Claim C6, as stated: on every path that cannot be opened, constructing
  \<^verbatim>\<open>Replication(path)\<close> raises \<^verbatim>\<open>SqlmapConnectionException\<close> and never another
  exception. A path holding a NUL byte cannot be opened: \<^verbatim>\<open>sqlite3.connect\<close> raises
  \<open>ValueError\<close>, the handler is for \<^verbatim>\<open>sqlite3.OperationalError\<close> only, and the
  constructor raises the \<open>ValueError\<close> as it is.
\<close>

theorem Replication_init_uncaught_counterexample:
  "sqlite3_connect mini_env (''/tmp/a'' @ [CHR 0x00] @ ''b.db'')
      = Inl (ValueError ''embedded null byte'')
   \<and> Replication_init mini_env (''/tmp/a'' @ [CHR 0x00] @ ''b.db'')
      = Inl (ValueError ''embedded null byte'')
   \<and> Replication_init mini_env (''/tmp/a'' @ [CHR 0x00] @ ''b.db'')
      \<noteq> Inl (SqlmapConnectionException
              (connect_errMsg mini_env (''/tmp/a'' @ [CHR 0x00] @ ''b.db'')
                 (ValueError ''embedded null byte'')))"
  by (simp add: Replication_init_def mini_env_def mini_connect_def)

text \<open>
  Claim C6, amended. When opening the database file raises, an \<open>OperationalError\<close>,
  which is what the engine raises for a directory or an unwritable location, becomes a
  \<^verbatim>\<open>SqlmapConnectionException\<close> whose message holds the path and the engine's text;
  an exception of any other class is raised unchanged.
\<close>

theorem Replication_init_wraps_operational:
  assumes "sqlite3_connect env path = Inl ex"
  shows "(case ex of
            OperationalError m \<Rightarrow>
              Replication_init env path =
                Inl (SqlmapConnectionException
                      (''error occurred while opening a replication file '' @ [CHR 0x27] @ path @
                       [CHR 0x27] @ '' ('' @ [CHR 0x27] @
                       getSafeExString env (OperationalError m) None @ [CHR 0x27] @ '')''))
          | _ \<Rightarrow> Replication_init env path = Inl ex)"
  using assms by (simp add: Replication_init_def connect_errMsg_def split: exn.splits)

theorem Replication_init_wraps_operational_witness:
  \<open>sqlite3_connect mini_env ''/var/lib/'' = Inl (OperationalError ''unable to open database file'')
   \<and> Replication_init mini_env ''/var/lib/'' =
       Inl (SqlmapConnectionException
         (''error occurred while opening a replication file '' @ [CHR 0x27] @ ''/var/lib/'' @
          [CHR 0x27] @ '' ('' @ [CHR 0x27] @ ''unable to open database file'' @ [CHR 0x27] @
          '')''))\<close>
proof -
  have h: "sqlite3_connect mini_env ''/var/lib/'' =
             Inl (OperationalError ''unable to open database file'')"
    by (simp add: mini_env_def mini_connect_def)
  show ?thesis
    using h Replication_init_wraps_operational [OF h]
    by (simp add: mini_env_def)
qed

section \<open>Creating tables\<close>


lemma Table_init_ok:
  assumes d: "drops_table env obs (py_str env (unsafeSQLIdentificatorNaming env nm))"
    and c: "creates_table env obs (py_str env (unsafeSQLIdentificatorNaming env nm)) cl"
    and l: "column_list env typeless cols = Inr cl"
  shows "\<exists>R'. Table_init env R nm cols True typeless =
                 (Inr \<lparr>name = unsafeSQLIdentificatorNaming env nm, columns = cols\<rparr>, R')
             \<and> obs (connection R') (py_str env (unsafeSQLIdentificatorNaming env nm)) = Some (cl, [])
             \<and> statements R' = statements R @
                  [(drop_sql (py_str env (unsafeSQLIdentificatorNaming env nm)), []),
                   (create_sql (py_str env (unsafeSQLIdentificatorNaming env nm)) cl, [])]"
proof -
  let ?self = "\<lparr>name = unsafeSQLIdentificatorNaming env nm, columns = cols\<rparr>"
  let ?tn = "py_str env (unsafeSQLIdentificatorNaming env nm)"
  obtain r1 d1 where x1: "cursor_execute env (drop_sql ?tn) [] (connection R) = (r1, d1)"
    by (cases "cursor_execute env (drop_sql ?tn) [] (connection R)")
  have "case cursor_execute env (drop_sql ?tn) [] (connection R) of
          (Inl e, d') \<Rightarrow> False | (Inr c, d') \<Rightarrow> obs d' ?tn = None"
    using d[unfolded drops_table_def, rule_format, of "connection R"] .
  then obtain c1 where r1: "r1 = Inr c1" and o1: "obs d1 ?tn = None"
    using x1 by (cases r1) simp_all
  let ?R1 = "R\<lparr>connection := d1, statements := statements R @ [(drop_sql ?tn, [])]\<rparr>"
  have e1: "execute env ?self (drop_sql ?tn) None R = (Inr RetNone, ?R1)"
    using x1 r1 by (simp add: execute_def)
  obtain r2 d2 where x2: "cursor_execute env (create_sql ?tn cl) [] d1 = (r2, d2)"
    by (cases "cursor_execute env (create_sql ?tn cl) [] d1")
  have "case cursor_execute env (create_sql ?tn cl) [] d1 of
          (Inl e, d') \<Rightarrow> False | (Inr c, d') \<Rightarrow> obs d' ?tn = Some (cl, [])"
    using c[unfolded creates_table_def, rule_format, OF o1] .
  then obtain c2 where r2: "r2 = Inr c2" and o2: "obs d2 ?tn = Some (cl, [])"
    using x2 by (cases r2) simp_all
  let ?R2 = "?R1\<lparr>connection := d2, statements := statements ?R1 @ [(create_sql ?tn cl, [])]\<rparr>"
  have e2: "execute env ?self (create_sql ?tn cl) None ?R1 = (Inr RetNone, ?R2)"
    using x2 r2 by (simp add: execute_def)
  have "Table_init env R nm cols True typeless = (Inr ?self, ?R2)"
    using e1 e2 l by (simp add: Table_init_def table_name_def)
  then show ?thesis using o2 by simp
qed

text \<open>
  Claim C7. Let the engine keep the contract for DROP and CREATE on the table name
  that \<open>n\<close> is sanitised to, and let \<open>cl1\<close> and \<open>cl2\<close> be the column lists rendered from
  the column specifications \<open>C1\<close> and \<open>C2\<close>. Then \<^verbatim>\<open>createTable(n, C1)\<close> followed by
  \<^verbatim>\<open>createTable(n, C2)\<close> both return a table, the statements issued are DROP, CREATE
  with \<open>cl1\<close>, DROP, CREATE with \<open>cl2\<close> in this order, and in the final database the
  table has exactly the column list \<open>cl2\<close> and no rows. The same holds when the second
  call starts from any other state \<open>R'\<close>, whatever rows and columns the table had there.
\<close>

theorem createTable_twice:
  assumes "drops_table env obs (py_str env (unsafeSQLIdentificatorNaming env n))"
    and "column_list env typeless1 C1 = Inr cl1"
    and "creates_table env obs (py_str env (unsafeSQLIdentificatorNaming env n)) cl1"
    and "column_list env typeless2 C2 = Inr cl2"
    and "creates_table env obs (py_str env (unsafeSQLIdentificatorNaming env n)) cl2"
  shows "(\<exists>t1 R1 t2 R2.
           createTable env R n C1 typeless1 = (Inr t1, R1)
         \<and> createTable env R1 n C2 typeless2 = (Inr t2, R2)
         \<and> columns t2 = C2
         \<and> obs (connection R2) (py_str env (unsafeSQLIdentificatorNaming env n)) = Some (cl2, [])
         \<and> statements R2 = statements R @
              [(drop_sql (py_str env (unsafeSQLIdentificatorNaming env n)), []),
               (create_sql (py_str env (unsafeSQLIdentificatorNaming env n)) cl1, []),
               (drop_sql (py_str env (unsafeSQLIdentificatorNaming env n)), []),
               (create_sql (py_str env (unsafeSQLIdentificatorNaming env n)) cl2, [])])
       \<and> (\<forall>R'. \<exists>t R''.
             createTable env R' n C2 typeless2 = (Inr t, R'')
           \<and> obs (connection R'') (py_str env (unsafeSQLIdentificatorNaming env n)) = Some (cl2, []))"
proof -
  obtain R1 where a: "Table_init env R n C1 True typeless1 =
                 (Inr \<lparr>name = unsafeSQLIdentificatorNaming env n, columns = C1\<rparr>, R1)"
     and sa: "statements R1 = statements R @
                  [(drop_sql (py_str env (unsafeSQLIdentificatorNaming env n)), []),
                   (create_sql (py_str env (unsafeSQLIdentificatorNaming env n)) cl1, [])]"
    using Table_init_ok[OF assms(1) assms(3) assms(2), of R] by blast
  obtain R2 where b: "Table_init env R1 n C2 True typeless2 =
                 (Inr \<lparr>name = unsafeSQLIdentificatorNaming env n, columns = C2\<rparr>, R2)"
     and ob: "obs (connection R2) (py_str env (unsafeSQLIdentificatorNaming env n)) = Some (cl2, [])"
     and sb: "statements R2 = statements R1 @
                  [(drop_sql (py_str env (unsafeSQLIdentificatorNaming env n)), []),
                   (create_sql (py_str env (unsafeSQLIdentificatorNaming env n)) cl2, [])]"
    using Table_init_ok[OF assms(1) assms(5) assms(4), of R1] by blast
  have any: "\<exists>t R''. createTable env R' n C2 typeless2 = (Inr t, R'')
           \<and> obs (connection R'') (py_str env (unsafeSQLIdentificatorNaming env n)) = Some (cl2, [])"
    for R'
    using Table_init_ok[OF assms(1) assms(5) assms(4), of R'] by (auto simp: createTable_def)
  have "\<exists>t1 R1 t2 R2.
           createTable env R n C1 typeless1 = (Inr t1, R1)
         \<and> createTable env R1 n C2 typeless2 = (Inr t2, R2)
         \<and> columns t2 = C2
         \<and> obs (connection R2) (py_str env (unsafeSQLIdentificatorNaming env n)) = Some (cl2, [])
         \<and> statements R2 = statements R @
              [(drop_sql (py_str env (unsafeSQLIdentificatorNaming env n)), []),
               (create_sql (py_str env (unsafeSQLIdentificatorNaming env n)) cl1, []),
               (drop_sql (py_str env (unsafeSQLIdentificatorNaming env n)), []),
               (create_sql (py_str env (unsafeSQLIdentificatorNaming env n)) cl2, [])]"
    using a b ob sa sb by (simp add: createTable_def)
  then show ?thesis using any by blast
qed

theorem createTable_twice_witness:
  \<open>drops_table mini_env (\<lambda>d. d) ''users''
   \<and> column_list mini_env False (PList [PTuple [PStr ''id'', sqlite_INTEGER]]) = Inr ''"id" INTEGER''
   \<and> creates_table mini_env (\<lambda>d. d) ''users'' ''"id" INTEGER''
   \<and> column_list mini_env False
        (PList [PTuple [PStr ''name'', sqlite_TEXT], PTuple [PStr ''age'', sqlite_INTEGER]])
       = Inr ''"name" TEXT,"age" INTEGER''
   \<and> creates_table mini_env (\<lambda>d. d) ''users'' ''"name" TEXT,"age" INTEGER''
   \<and> (\<exists>t1 R1 t2 R2.
         createTable mini_env fresh (PStr ''users'') (PList [PTuple [PStr ''id'', sqlite_INTEGER]]) False
           = (Inr t1, R1)
       \<and> createTable mini_env R1 (PStr ''users'')
           (PList [PTuple [PStr ''name'', sqlite_TEXT], PTuple [PStr ''age'', sqlite_INTEGER]]) False
           = (Inr t2, R2)
       \<and> columns t2 = PList [PTuple [PStr ''name'', sqlite_TEXT], PTuple [PStr ''age'', sqlite_INTEGER]]
       \<and> connection R2 ''users'' = Some (''"name" TEXT,"age" INTEGER'', [])
       \<and> statements R2 =
            [(''DROP TABLE IF EXISTS "users"'', []),
             (''CREATE TABLE "users" ("id" INTEGER)'', []),
             (''DROP TABLE IF EXISTS "users"'', []),
             (''CREATE TABLE "users" ("name" TEXT,"age" INTEGER)'', [])])
   \<and> connection one_row ''users'' = Some (''"id" INTEGER'', [[PInt 1]])
   \<and> (\<exists>t R''.
         createTable mini_env one_row (PStr ''users'')
           (PList [PTuple [PStr ''name'', sqlite_TEXT], PTuple [PStr ''age'', sqlite_INTEGER]]) False
           = (Inr t, R'')
       \<and> connection R'' ''users'' = Some (''"name" TEXT,"age" INTEGER'', []))\<close>
proof -
  have n: "py_str mini_env (unsafeSQLIdentificatorNaming mini_env (PStr ''users'')) = ''users''"
    by (simp add: py_str_def mini_env_def mini_sanitize_def)
  have d: "drops_table mini_env (\<lambda>d. d)
             (py_str mini_env (unsafeSQLIdentificatorNaming mini_env (PStr ''users'')))"
    unfolding n by (simp add: drops_table_def mini_env_def mini_execute_def drop_sql_def)
  have l1: \<open>column_list mini_env False (PList [PTuple [PStr ''id'', sqlite_INTEGER]])
              = Inr ''"id" INTEGER''\<close>
    by (simp add: column_list_def py_iter_def typed_column_def unpack2_def py_str_def
          mini_env_def mini_sanitize_def sqlite_INTEGER_def DataType_str_def)
  have c1: \<open>creates_table mini_env (\<lambda>d. d)
              (py_str mini_env (unsafeSQLIdentificatorNaming mini_env (PStr ''users'')))
              ''"id" INTEGER''\<close>
    unfolding n by (simp add: creates_table_def mini_env_def mini_execute_def create_sql_def Let_def)
  have l2: \<open>column_list mini_env False
        (PList [PTuple [PStr ''name'', sqlite_TEXT], PTuple [PStr ''age'', sqlite_INTEGER]])
       = Inr ''"name" TEXT,"age" INTEGER''\<close>
    by (simp add: column_list_def py_iter_def typed_column_def unpack2_def py_str_def
          mini_env_def mini_sanitize_def sqlite_INTEGER_def sqlite_TEXT_def DataType_str_def)
  have c2: \<open>creates_table mini_env (\<lambda>d. d)
              (py_str mini_env (unsafeSQLIdentificatorNaming mini_env (PStr ''users'')))
              ''"name" TEXT,"age" INTEGER''\<close>
    unfolding n by (simp add: creates_table_def mini_env_def mini_execute_def create_sql_def Let_def)
  have o: \<open>connection one_row ''users'' = Some (''"id" INTEGER'', [[PInt 1]])\<close>
    by (simp add: one_row_def)
  note t = createTable_twice [OF d l1 c1 l2 c2, of fresh]
  have a: \<open>\<exists>t1 R1 t2 R2.
         createTable mini_env fresh (PStr ''users'') (PList [PTuple [PStr ''id'', sqlite_INTEGER]]) False
           = (Inr t1, R1)
       \<and> createTable mini_env R1 (PStr ''users'')
           (PList [PTuple [PStr ''name'', sqlite_TEXT], PTuple [PStr ''age'', sqlite_INTEGER]]) False
           = (Inr t2, R2)
       \<and> columns t2 = PList [PTuple [PStr ''name'', sqlite_TEXT], PTuple [PStr ''age'', sqlite_INTEGER]]
       \<and> connection R2 ''users'' = Some (''"name" TEXT,"age" INTEGER'', [])
       \<and> statements R2 =
            [(''DROP TABLE IF EXISTS "users"'', []),
             (''CREATE TABLE "users" ("id" INTEGER)'', []),
             (''DROP TABLE IF EXISTS "users"'', []),
             (''CREATE TABLE "users" ("name" TEXT,"age" INTEGER)'', [])]\<close>
    using t [THEN conjunct1] by (simp add: n drop_sql_def create_sql_def fresh_def)
  have b: \<open>\<exists>t R''.
         createTable mini_env one_row (PStr ''users'')
           (PList [PTuple [PStr ''name'', sqlite_TEXT], PTuple [PStr ''age'', sqlite_INTEGER]]) False
           = (Inr t, R'')
       \<and> connection R'' ''users'' = Some (''"name" TEXT,"age" INTEGER'', [])\<close>
    using t [THEN conjunct2, rule_format, of one_row] by (simp add: n)
  have d': "drops_table mini_env (\<lambda>d. d) ''users''" using d unfolding n .
  have c1': \<open>creates_table mini_env (\<lambda>d. d) ''users'' ''"id" INTEGER''\<close> using c1 unfolding n .
  have c2': \<open>creates_table mini_env (\<lambda>d. d) ''users'' ''"name" TEXT,"age" INTEGER''\<close>
    using c2 unfolding n .
  from d' l1 c1' l2 c2' a o b show ?thesis by blast
qed



text \<open>
  Claim C10. Let the \<^verbatim>\<open>columns\<close> argument be malformed: it is \<^verbatim>\<open>None\<close>, or the table
  is typed and some element does not unpack into two values, or building the column
  list raises for any other reason. Then constructing the table with \<^verbatim>\<open>create\<close>
  raises \<^verbatim>\<open>SqlmapGenericException\<close>, and its message ends with the path of the
  database file; the exception named in the message is the one raised while building
  the column list, unless the DROP before it had already raised.
\<close>

theorem Table_init_malformed_columns:
  assumes "cols = PNone
         \<or> (\<not> typeless \<and> (\<exists>els el e. py_iter cols = Inr els \<and> el \<in> set els \<and> unpack2 el = Inl e))
         \<or> (\<exists>e. column_list env typeless cols = Inl e)"
  shows "\<exists>x. fst (Table_init env R nm cols True typeless) =
           Inl (SqlmapGenericException
                 (''problem occurred ('' @ [CHR 0x27] @
                  getSafeExString env x (Some (UNICODE_ENCODING env)) @ [CHR 0x27] @
                  '') while initializing the sqlite database located at '' @ [CHR 0x27] @
                  dbpath R @ [CHR 0x27]))
         \<and> (column_list env typeless cols = Inl x
            \<or> isl (fst (cursor_execute env
                  (drop_sql (py_str env (unsafeSQLIdentificatorNaming env nm))) [] (connection R))))"
proof -
  let ?self = "\<lparr>name = unsafeSQLIdentificatorNaming env nm, columns = cols\<rparr>"
  let ?tn = "py_str env (unsafeSQLIdentificatorNaming env nm)"
  from assms obtain e where e: "column_list env typeless cols = Inl e"
    using column_list_None column_list_not_pair by (metis (full_types))
  obtain r1 R1 where e1: "execute env ?self (drop_sql ?tn) None R = (r1, R1)"
    by (cases "execute env ?self (drop_sql ?tn) None R")
  have p1: "dbpath R1 = dbpath R" using execute_raising_dbpath[OF e1] .
  have i1: "isl r1 = isl (fst (cursor_execute env (drop_sql ?tn) [] (connection R)))"
    using execute_raises_iff[of env ?self "drop_sql ?tn" R] e1 by simp
  show ?thesis
  proof (cases r1)
    case (Inl ex)
    then show ?thesis using e1 p1 i1
      by (auto simp: Table_init_def table_name_def init_errMsg_def)
  next
    case (Inr u)
    then show ?thesis using e1 p1 e
      by (auto simp: Table_init_def table_name_def init_errMsg_def)
  qed
qed

theorem Table_init_malformed_columns_witness:
  "(\<exists>x. fst (Table_init mini_env fresh (PStr ''users'') PNone True False) =
           Inl (SqlmapGenericException
                 (''problem occurred ('' @ [CHR 0x27] @ exn_text x @ [CHR 0x27] @
                  '') while initializing the sqlite database located at '' @ [CHR 0x27] @
                  ''/tmp/out.sqlite3'' @ [CHR 0x27])))
   \<and> (\<exists>x. fst (Table_init mini_env fresh (PStr ''users'') (PList [PInt 1]) True False) =
           Inl (SqlmapGenericException
                 (''problem occurred ('' @ [CHR 0x27] @ exn_text x @ [CHR 0x27] @
                  '') while initializing the sqlite database located at '' @ [CHR 0x27] @
                  ''/tmp/out.sqlite3'' @ [CHR 0x27])))"
proof -
  have h1: "PNone = PNone
         \<or> (\<not> False \<and> (\<exists>els el e. py_iter PNone = Inr els \<and> el \<in> set els \<and> unpack2 el = Inl e))
         \<or> (\<exists>e. column_list mini_env False PNone = Inl e)"
    by simp
  have u: "py_iter (PList [PInt 1]) = Inr [PInt 1] \<and> PInt 1 \<in> set [PInt 1]
           \<and> unpack2 (PInt 1) = Inl (TypeError ''cannot unpack non-iterable object'')"
    by (simp add: py_iter_def unpack2_def)
  have h2: "PList [PInt 1] = PNone
         \<or> (\<not> False \<and> (\<exists>els el e. py_iter (PList [PInt 1]) = Inr els \<and> el \<in> set els
                                   \<and> unpack2 el = Inl e))
         \<or> (\<exists>e. column_list mini_env False (PList [PInt 1]) = Inl e)"
    using u by blast
  have g: "getSafeExString mini_env x (Some (UNICODE_ENCODING mini_env)) = exn_text x"
    "dbpath fresh = ''/tmp/out.sqlite3''" for x
    by (simp_all add: mini_env_def fresh_def)
  show ?thesis
    using Table_init_malformed_columns [OF h1, of fresh "PStr ''users''"]
          Table_init_malformed_columns [OF h2, of fresh "PStr ''users''"]
    unfolding g by blast
qed

end
